theory Spec2Isabelle
  imports Main
begin

section \<open>JavaScript values\<close>

text \<open>
  The values the strategy handles: request fields, parsed JSON documents and the
  arguments of the completion callbacks. \<open>JUndefined\<close> is what a read of a missing
  property yields. Numbers are restricted to integers; the program only tests them for
  truthiness and equality. An object is the list of its own properties, each key once.
  \<open>JFunction name arity\<close> is a function, as the methods an object inherits from its
  prototype are; no JSON document holds one.
\<close>

datatype jsval =
    JUndefined
  | JNull
  | JBool bool
  | JNum int
  | JStr string
  | JArr "jsval list"
  | JObj "(string \<times> jsval) list"
  | JFunction string nat

text \<open>\<open>if (v)\<close>, \<open>!v\<close>, \<open>a || b\<close>, \<open>a && b\<close>.\<close>

fun truthy :: "jsval \<Rightarrow> bool" where
  "truthy JUndefined = False"
| "truthy JNull = False"
| "truthy (JBool b) = b"
| "truthy (JNum n) = (n \<noteq> 0)"
| "truthy (JStr s) = (s \<noteq> [])"
| "truthy (JArr xs) = True"
| "truthy (JObj kvs) = True"
| "truthy (JFunction n a) = True"

definition js_or :: "jsval \<Rightarrow> jsval \<Rightarrow> jsval" where
  "js_or a b = (if truthy a then a else b)"

text \<open>
  \<open>v.k\<close> for the property names the program reads (\<open>id\<close>, \<open>login\<close>, \<open>name\<close>,
  \<open>email\<close>, \<open>message\<close>, \<open>length\<close>, \<open>primary\<close>, \<open>verified\<close>): an own property of an
  object, the length of a string or an array, the name and the arity of a function,
  \<open>undefined\<close> otherwise. None of these names is inherited from the prototype of an
  object, an array, a string, a number or a boolean. Reading a property of \<open>null\<close> or
  \<open>undefined\<close> throws a TypeError.
\<close>

fun read_prop :: "jsval \<Rightarrow> string \<Rightarrow> jsval" where
  "read_prop (JObj kvs) k = (case map_of kvs k of None \<Rightarrow> JUndefined | Some v \<Rightarrow> v)"
| "read_prop (JArr xs) k = (if k = ''length'' then JNum (int (length xs)) else JUndefined)"
| "read_prop (JStr s) k = (if k = ''length'' then JNum (int (length s)) else JUndefined)"
| "read_prop (JFunction n a) k =
     (if k = ''length'' then JNum (int a) else if k = ''name'' then JStr n else JUndefined)"
| "read_prop v k = JUndefined"

record transport_error =
  data :: "string option"
  statusCode :: jsval

text \<open>
  \<open>new InternalOAuthError(message, err)\<close> stores its second argument as it is: the status
  code on one path of \<open>userProfile\<close>, the transport error itself on the other.
  \<open>AppError\<close> is an error value handed over by the application's verify callback.
\<close>

datatype oauth_cause = StatusCode jsval | Cause transport_error

datatype js_error =
    SyntaxError
  | TypeError
  | InternalOAuthError jsval oauth_cause
  | AppError jsval

definition get_prop :: "jsval \<Rightarrow> string \<Rightarrow> js_error + jsval" where
  "get_prop v k = (if v = JUndefined \<or> v = JNull then Inl TypeError else Inr (read_prop v k))"

text \<open>
  \<open>x == y\<close>. Values of one type compare by value, \<open>null\<close> and \<open>undefined\<close> equal each
  other and nothing else, and two objects or arrays are equal only when they are the same
  reference: the program compares a value of the primary document with one of the emails
  document, which are never the same object. The remaining mixed cases convert an operand
  first; that conversion belongs to the language runtime and is the parameter \<open>c\<close>, which
  also answers for a function, a value neither document holds.
\<close>

fun loose_eq :: "(jsval \<Rightarrow> jsval \<Rightarrow> bool) \<Rightarrow> jsval \<Rightarrow> jsval \<Rightarrow> bool" where
  "loose_eq c JUndefined y = (y = JUndefined \<or> y = JNull)"
| "loose_eq c JNull y = (y = JUndefined \<or> y = JNull)"
| "loose_eq c x JUndefined = False"
| "loose_eq c x JNull = False"
| "loose_eq c (JBool a) (JBool b) = (a = b)"
| "loose_eq c (JNum a) (JNum b) = (a = b)"
| "loose_eq c (JStr a) (JStr b) = (a = b)"
| "loose_eq c (JArr a) (JArr b) = False"
| "loose_eq c (JArr a) (JObj b) = False"
| "loose_eq c (JObj a) (JArr b) = False"
| "loose_eq c (JObj a) (JObj b) = False"
| "loose_eq c x y = c x y"

text \<open>
  The builtins of the runtime the program calls: \<open>JSON.parse\<close> (\<open>None\<close> when it throws
  a SyntaxError) and the converting comparison behind \<open>==\<close>.
\<close>

record runtime =
  JSON_parse :: "string \<Rightarrow> jsval option"
  coerce_eq :: "jsval \<Rightarrow> jsval \<Rightarrow> bool"

section \<open>The strategy and its collaborators\<close>

datatype scope_opt = ScopeAbsent | ScopeString string | ScopeArray "string list"

record strategy =
  accessTokenField :: string
  refreshTokenField :: string
  profileURL :: string
  passReqToCallback :: bool
  scope :: scope_opt

record options =
  opt_accessTokenField :: "string option"
  opt_refreshTokenField :: "string option"
  opt_profileURL :: "string option"
  opt_passReqToCallback :: bool
  opt_scope :: scope_opt

text \<open>\<open>options.f || 'default'\<close>: an absent or empty option takes the default.\<close>

definition or_default :: "string option \<Rightarrow> string \<Rightarrow> string" where
  "or_default v d = (case v of None \<Rightarrow> d | Some s \<Rightarrow> if s = [] then d else s)"

definition GitHubTokenStrategy :: "options \<Rightarrow> strategy" where
  "GitHubTokenStrategy opts =
     \<lparr> accessTokenField = or_default (opt_accessTokenField opts) ''access_token'',
       refreshTokenField = or_default (opt_refreshTokenField opts) ''refresh_token'',
       profileURL = or_default (opt_profileURL opts) ''https://api.github.com/user'',
       passReqToCallback = opt_passReqToCallback opts,
       scope = opt_scope opts \<rparr>"

text \<open>
  The request: each of \<open>body\<close>, \<open>query\<close> and \<open>headers\<close> is absent or an object. A read
  \<open>object[field]\<close> finds an own property first and then a property the object inherits
  through its prototype chain, so an object is its own properties together with the
  inherited ones (none for an object without a prototype).
\<close>

record js_object =
  own_props :: "string \<rightharpoonup> jsval"
  inherited_props :: "string \<rightharpoonup> jsval"

record request =
  req_body :: "js_object option"
  req_query :: "js_object option"
  req_headers :: "js_object option"

text \<open>
  The transport \<open>_oauth2.get(url, token, callback)\<close> completes with an error or with a
  body; a collaborator is a function from its arguments to the one completion it reports.
\<close>

datatype response = Failed transport_error | Body string

type_synonym transport = "string \<Rightarrow> jsval \<Rightarrow> response"

section \<open>The normalized profile\<close>

record name_parts =
  familyName :: string
  givenName :: string

text \<open>
  An entry of \<open>emails\<close>: \<open>{value}\<close> after normalization (\<open>None\<close> is a property that was
  never set), \<open>{value, primary, verified}\<close> after enrichment.
\<close>

record email_entry =
  email_value :: jsval
  email_primary :: "jsval option"
  email_verified :: "jsval option"

text \<open>
  \<open>emails: json.email && [{value: json.email}]\<close> leaves in \<open>emails\<close> either the falsy
  value of \<open>json.email\<close> or a list.
\<close>

datatype emails_field = NoEmails jsval | Emails "email_entry list"

record profile =
  provider :: string
  profile_id :: jsval
  username :: jsval
  displayName :: jsval
  name :: name_parts
  emails :: emails_field
  photos :: "jsval list"
  raw :: string
  json :: jsval

text \<open>\<open>s.split(' ', 2)\<close>: cut at every space, keep the first two pieces.\<close>

fun split_on :: "char \<Rightarrow> string \<Rightarrow> string list" where
  "split_on c [] = [[]]"
| "split_on c (x # xs) =
     (if x = c then [] # split_on c xs
      else (case split_on c xs of [] \<Rightarrow> [[x]] | p # ps \<Rightarrow> (x # p) # ps))"

definition split2 :: "string \<Rightarrow> string list" where
  "split2 s = take 2 (split_on CHR '' '' s)"

text \<open>\<open>pieces[i] || ''\<close>: a missing piece reads as \<open>undefined\<close> and becomes \<open>''\<close>.\<close>

definition piece_or_empty :: "string list \<Rightarrow> nat \<Rightarrow> string" where
  "piece_or_empty ps i = (if i < length ps then ps ! i else [])"

text \<open>
  \<open>json.name ? json.name.split(' ', 2)[i] || '' : ''\<close>. Only a string has \<open>split\<close>: a
  truthy name of another type throws a TypeError.
\<close>

definition name_piece :: "jsval \<Rightarrow> nat \<Rightarrow> js_error + string" where
  "name_piece nm i =
     (if truthy nm
      then (case nm of JStr s \<Rightarrow> Inr (piece_or_empty (split2 s) i) | _ \<Rightarrow> Inl TypeError)
      else Inr [])"

text \<open>The object literal inside the \<open>try\<close> of \<open>userProfile\<close>, properties in source order.\<close>

definition build_profile :: "string \<Rightarrow> jsval \<Rightarrow> js_error + profile" where
  "build_profile b j =
     (case get_prop j ''id'' of Inl e \<Rightarrow> Inl e | Inr i \<Rightarrow>
      (case name_piece (read_prop j ''name'') 1 of Inl e \<Rightarrow> Inl e | Inr fam \<Rightarrow>
       (case name_piece (read_prop j ''name'') 0 of Inl e \<Rightarrow> Inl e | Inr giv \<Rightarrow>
        Inr \<lparr> provider = ''github'',
              profile_id = i,
              username = read_prop j ''login'',
              displayName = js_or (read_prop j ''name'') (JStr []),
              name = \<lparr> familyName = fam, givenName = giv \<rparr>,
              emails = (if truthy (read_prop j ''email'')
                        then Emails [\<lparr> email_value = read_prop j ''email'',
                                       email_primary = None, email_verified = None \<rparr>]
                        else NoEmails (read_prop j ''email'')),
              photos = [],
              raw = b,
              json = j \<rparr>)))"

section \<open>Fetching the profile\<close>

text \<open>
  \<open>this._scope && this._scope.indexOf('user:email') !== -1\<close>. The scope is whatever the
  options held: on a string \<open>indexOf\<close> searches a substring, on an array an element.
  An empty string is falsy, an empty array is not.
\<close>

fun indexOf_string :: "string \<Rightarrow> string \<Rightarrow> int" where
  "indexOf_string [] pat = (if pat = [] then 0 else - 1)"
| "indexOf_string (c # cs) pat =
     (if take (length pat) (c # cs) = pat then 0
      else (let r = indexOf_string cs pat in if r = - 1 then - 1 else r + 1))"

fun indexOf_array :: "string list \<Rightarrow> string \<Rightarrow> int" where
  "indexOf_array [] x = - 1"
| "indexOf_array (y # ys) x =
     (if y = x then 0
      else (let r = indexOf_array ys x in if r = - 1 then - 1 else r + 1))"

fun scope_truthy :: "scope_opt \<Rightarrow> bool" where
  "scope_truthy ScopeAbsent = False"
| "scope_truthy (ScopeString s) = (s \<noteq> [])"
| "scope_truthy (ScopeArray xs) = True"

fun scope_indexOf :: "scope_opt \<Rightarrow> string \<Rightarrow> int" where
  "scope_indexOf ScopeAbsent x = - 1"
| "scope_indexOf (ScopeString s) x = indexOf_string s x"
| "scope_indexOf (ScopeArray xs) x = indexOf_array xs x"

definition wants_private_emails :: "strategy \<Rightarrow> bool" where
  "wants_private_emails st =
     (scope_truthy (scope st) \<and> scope_indexOf (scope st) ''user:email'' \<noteq> - 1)"

text \<open>
  How \<open>userProfile\<close> ends: it calls \<open>done(error)\<close>, it calls \<open>done(null, profile)\<close>, or an
  exception leaves a transport callback and \<open>done\<close> is never called.
\<close>

datatype profile_outcome =
    Done_error js_error
  | Done_profile profile
  | Uncaught js_error

text \<open>
  The transport reported an error. \<open>JSON.parse(error.data)\<close> and the read of
  \<open>errorJSON.message\<close> share one \<open>try\<close>: whichever throws, the \<open>catch\<close> builds the
  generic error. Absent data is parsed as the text \<open>undefined\<close>, which is no JSON.
\<close>

definition profile_error :: "runtime \<Rightarrow> transport_error \<Rightarrow> js_error" where
  "profile_error rt e =
     (case (case data e of None \<Rightarrow> None | Some d \<Rightarrow> JSON_parse rt d) of
        None \<Rightarrow> InternalOAuthError (JStr ''Failed to fetch user profile'') (Cause e)
      | Some errorJSON \<Rightarrow>
          (case get_prop errorJSON ''message'' of
             Inl _ \<Rightarrow> InternalOAuthError (JStr ''Failed to fetch user profile'') (Cause e)
           | Inr m \<Rightarrow> InternalOAuthError m (StatusCode (statusCode e))))"

text \<open>The \<open>try\<close> around \<open>JSON.parse(body)\<close> and the object literal: \<open>catch (e)\<close> hands over \<open>e\<close>.\<close>

definition parse_profile :: "runtime \<Rightarrow> string \<Rightarrow> js_error + profile" where
  "parse_profile rt b =
     (case JSON_parse rt b of None \<Rightarrow> Inl SyntaxError | Some j \<Rightarrow> build_profile b j)"

text \<open>
  The body of \<open>json.forEach\<close>. \<open>publicEmail\<close> was read once before the loop; a match
  writes the flags into \<open>profile.emails[0]\<close>, anything else is pushed.
\<close>

definition set_flags :: "jsval \<Rightarrow> jsval \<Rightarrow> email_entry \<Rightarrow> email_entry" where
  "set_flags p v en = en\<lparr> email_primary := Some p, email_verified := Some v \<rparr>"

definition new_entry :: "jsval \<Rightarrow> email_entry" where
  "new_entry email =
     \<lparr> email_value = read_prop email ''email'',
       email_primary = Some (read_prop email ''primary''),
       email_verified = Some (read_prop email ''verified'') \<rparr>"

definition is_public :: "runtime \<Rightarrow> email_entry option \<Rightarrow> jsval \<Rightarrow> bool" where
  "is_public rt publicEmail email =
     (case publicEmail of
        None \<Rightarrow> False
      | Some pe \<Rightarrow> loose_eq (coerce_eq rt) (email_value pe) (read_prop email ''email''))"

definition email_step ::
  "runtime \<Rightarrow> email_entry option \<Rightarrow> email_entry list \<Rightarrow> jsval \<Rightarrow> js_error + email_entry list"
where
  "email_step rt publicEmail ems email =
     (case get_prop email ''email'' of
        Inl e \<Rightarrow> Inl e
      | Inr _ \<Rightarrow>
          if is_public rt publicEmail email
          then (case ems of
                  [] \<Rightarrow> Inl TypeError
                | en # rest \<Rightarrow>
                    Inr (set_flags (read_prop email ''primary'') (read_prop email ''verified'') en
                         # rest))
          else Inr (ems @ [new_entry email]))"

fun forEach_email ::
  "runtime \<Rightarrow> email_entry option \<Rightarrow> email_entry list \<Rightarrow> jsval list \<Rightarrow> js_error + email_entry list"
where
  "forEach_email rt publicEmail ems [] = Inr ems"
| "forEach_email rt publicEmail ems (email # others) =
     (case email_step rt publicEmail ems email of
        Inl e \<Rightarrow> Inl e
      | Inr ems' \<Rightarrow> forEach_email rt publicEmail ems' others)"

text \<open>\<open>profile.emails || []\<close> and \<open>profile.emails[0]\<close>.\<close>

definition emails_or_empty :: "emails_field \<Rightarrow> email_entry list" where
  "emails_or_empty f = (case f of NoEmails _ \<Rightarrow> [] | Emails es \<Rightarrow> es)"

definition first_entry :: "email_entry list \<Rightarrow> email_entry option" where
  "first_entry es = (case es of [] \<Rightarrow> None | en # _ \<Rightarrow> Some en)"

text \<open>
  The callback of the second transport call. Only the parse is inside a \<open>try\<close>:
  \<open>json.length\<close> on \<open>null\<close>, \<open>json.forEach\<close> on a value that is no array and a read of
  \<open>email.email\<close> on a \<open>null\<close> element throw out of the callback.
\<close>

definition merge_emails :: "runtime \<Rightarrow> profile \<Rightarrow> response \<Rightarrow> profile_outcome" where
  "merge_emails rt p r =
     (case r of
        Failed _ \<Rightarrow> Done_profile p
      | Body b \<Rightarrow>
          (case JSON_parse rt b of
             None \<Rightarrow> Done_profile p
           | Some j \<Rightarrow>
               (case get_prop j ''length'' of
                  Inl e \<Rightarrow> Uncaught e
                | Inr len \<Rightarrow>
                    if \<not> truthy len then Done_profile p
                    else (let ems = emails_or_empty (emails p);
                              publicEmail = first_entry ems
                          in case j of
                               JArr recs \<Rightarrow>
                                 (case forEach_email rt publicEmail ems recs of
                                    Inl e \<Rightarrow> Uncaught e
                                  | Inr ems' \<Rightarrow> Done_profile (p\<lparr> emails := Emails ems' \<rparr>))
                             | _ \<Rightarrow> Uncaught TypeError))))"

definition userProfile :: "runtime \<Rightarrow> strategy \<Rightarrow> transport \<Rightarrow> jsval \<Rightarrow> profile_outcome" where
  "userProfile rt st get accessToken =
     (case get (profileURL st) accessToken of
        Failed e \<Rightarrow> Done_error (profile_error rt e)
      | Body b \<Rightarrow>
          (case parse_profile rt b of
             Inl e \<Rightarrow> Done_error e
           | Inr p \<Rightarrow>
               if wants_private_emails st
               then merge_emails rt p (get (profileURL st @ ''/emails'') accessToken)
               else Done_profile p))"

section \<open>Authentication\<close>

text \<open>
  The terminal signals \<open>this.success(user, info)\<close>, \<open>this.fail(info)\<close> and
  \<open>this.error(error)\<close>; \<open>Escaped\<close> is an exception that left the strategy with none of
  them called.
\<close>

datatype outcome =
    Success jsval jsval
  | Fail jsval
  | Error js_error
  | Escaped js_error

text \<open>
  \<open>req.body && req.body[field]\<close>, for a part of the request that is absent or an object:
  the own property, else the inherited one, else \<open>undefined\<close>.
\<close>

definition lookup_field :: "js_object option \<Rightarrow> string \<Rightarrow> jsval" where
  "lookup_field part f =
     (case part of
        None \<Rightarrow> JUndefined
      | Some ob \<Rightarrow>
          (case own_props ob f of
             Some v \<Rightarrow> v
           | None \<Rightarrow> (case inherited_props ob f of None \<Rightarrow> JUndefined | Some v \<Rightarrow> v)))"

definition find_token :: "request \<Rightarrow> string \<Rightarrow> jsval" where
  "find_token req f = js_or (lookup_field (req_body req) f) (lookup_field (req_query req) f)"

text \<open>
  The other version of the file in the repository (the one without the emails call) looks
  a token up in the headers as well, under the field name as given and in lower case:
  \<open>... || (req.headers && (req.headers[field] || req.headers[field.toLowerCase()]))\<close>.
\<close>

definition toLowerCase :: "string \<Rightarrow> string" where
  "toLowerCase s =
     map (\<lambda>c. if 65 \<le> (of_char c :: nat) \<and> (of_char c :: nat) \<le> 90
              then char_of ((of_char c :: nat) + 32) else c) s"

definition find_token_with_headers :: "request \<Rightarrow> string \<Rightarrow> jsval" where
  "find_token_with_headers req f =
     js_or (js_or (lookup_field (req_body req) f) (lookup_field (req_query req) f))
           (case req_headers req of
              None \<Rightarrow> JUndefined
            | Some h \<Rightarrow> js_or (lookup_field (Some h) f) (lookup_field (Some h) (toLowerCase f)))"

text \<open>The arguments \<open>(error, user, info)\<close> the verify callback passes to \<open>verified\<close>.\<close>

record verdict =
  v_error :: jsval
  v_user :: jsval
  v_info :: jsval

definition verified :: "verdict \<Rightarrow> outcome" where
  "verified v =
     (if truthy (v_error v) then Error (AppError (v_error v))
      else if \<not> truthy (v_user v) then Fail (v_info v)
      else Success (v_user v) (v_info v))"

text \<open>
  The application's verify callback: it receives the request first when
  \<open>passReqToCallback\<close> is set, and completes by one call of \<open>verified\<close>.
\<close>

type_synonym verify = "request option \<Rightarrow> jsval \<Rightarrow> jsval \<Rightarrow> profile \<Rightarrow> verdict"

text \<open>
  The inherited \<open>_loadUserProfile\<close> of the OAuth2 base strategy calls \<open>userProfile\<close>
  unless the application configured it to skip the profile; that option is not modelled.
\<close>

definition loadUserProfile ::
  "runtime \<Rightarrow> strategy \<Rightarrow> transport \<Rightarrow> jsval \<Rightarrow> profile_outcome"
where
  "loadUserProfile rt st get accessToken = userProfile rt st get accessToken"

definition missing_token :: "strategy \<Rightarrow> jsval" where
  "missing_token st =
     JObj [(''message'', JStr (''You should provide '' @ accessTokenField st))]"

definition authenticate ::
  "runtime \<Rightarrow> strategy \<Rightarrow> transport \<Rightarrow> verify \<Rightarrow> request \<Rightarrow> outcome"
where
  "authenticate rt st get vfy req =
     (let accessToken = find_token req (accessTokenField st);
          refreshToken = find_token req (refreshTokenField st)
      in if \<not> truthy accessToken then Fail (missing_token st)
         else (case loadUserProfile rt st get accessToken of
                 Done_error e \<Rightarrow> Error e
               | Uncaught e \<Rightarrow> Escaped e
               | Done_profile p \<Rightarrow>
                   verified (vfy (if passReqToCallback st then Some req else None)
                                 accessToken refreshToken p)))"

section \<open>Fixtures\<close>

text \<open>
  The stubs of the repository's tests: a strategy built from the default options, a
  transport that answers with a fixed completion per URL, a verify callback that accepts
  the user, and \<open>JSON.parse\<close> on the texts the examples use (any other text is
  rejected, as \<open>not a JSON\<close> is).
\<close>

definition default_options :: options where
  "default_options =
     \<lparr> opt_accessTokenField = None, opt_refreshTokenField = None, opt_profileURL = None,
       opt_passReqToCallback = False, opt_scope = ScopeAbsent \<rparr>"

definition email_options :: options where
  "email_options = default_options\<lparr> opt_scope := ScopeString ''user:email'' \<rparr>"

definition fakeProfile :: string where
  \<open>fakeProfile =
     ''{"id":"1","login":"ghaiklor","name":"Eugene Obrezkov","email":"ghaiklor@gmail.com"}''\<close>

definition fakeProfile_json :: jsval where
  "fakeProfile_json =
     JObj [(''id'', JStr ''1''), (''login'', JStr ''ghaiklor''),
           (''name'', JStr ''Eugene Obrezkov''), (''email'', JStr ''ghaiklor@gmail.com'')]"

definition fakeProfile_normalized :: profile where
  "fakeProfile_normalized =
     \<lparr> provider = ''github'', profile_id = JStr ''1'', username = JStr ''ghaiklor'',
       displayName = JStr ''Eugene Obrezkov'',
       name = \<lparr> familyName = ''Obrezkov'', givenName = ''Eugene'' \<rparr>,
       emails = Emails [\<lparr> email_value = JStr ''ghaiklor@gmail.com'',
                          email_primary = None, email_verified = None \<rparr>],
       photos = [], raw = fakeProfile, json = fakeProfile_json \<rparr>"

definition hiddenEmailProfile :: string where
  \<open>hiddenEmailProfile = ''{"id":"1","login":"ghaiklor","name":"Eugene Obrezkov"}''\<close>

definition hiddenEmailProfile_json :: jsval where
  "hiddenEmailProfile_json =
     JObj [(''id'', JStr ''1''), (''login'', JStr ''ghaiklor''),
           (''name'', JStr ''Eugene Obrezkov'')]"

definition fakeEmails :: string where
  \<open>fakeEmails = ''[{"email":"ghaiklor@gmail.com","primary":true,"verified":true}]''\<close>

definition fakeEmails_json :: jsval where
  "fakeEmails_json =
     JArr [JObj [(''email'', JStr ''ghaiklor@gmail.com''), (''primary'', JBool True),
                 (''verified'', JBool True)]]"

definition twoEmails :: string where
  \<open>twoEmails =
     ''[{"email":"ghaiklor@gmail.com","primary":true,"verified":true},{"email":"work@example.com","primary":false,"verified":true}]''\<close>

definition twoEmails_json :: jsval where
  "twoEmails_json =
     JArr [JObj [(''email'', JStr ''ghaiklor@gmail.com''), (''primary'', JBool True),
                 (''verified'', JBool True)],
           JObj [(''email'', JStr ''work@example.com''), (''primary'', JBool False),
                 (''verified'', JBool True)]]"

definition emailsWithNull :: string where
  \<open>emailsWithNull =
     ''[{"email":"ghaiklor@gmail.com","primary":true,"verified":true},null]''\<close>

definition emailsWithNull_json :: jsval where
  "emailsWithNull_json =
     JArr [JObj [(''email'', JStr ''ghaiklor@gmail.com''), (''primary'', JBool True),
                 (''verified'', JBool True)],
           JNull]"

definition badCredentials :: string where
  \<open>badCredentials = ''{"message":"Bad credentials"}''\<close>

definition fixture_parse :: "string \<Rightarrow> jsval option" where
  "fixture_parse =
     map_of
       [(fakeProfile, fakeProfile_json),
        (hiddenEmailProfile, hiddenEmailProfile_json),
        (fakeEmails, fakeEmails_json),
        (twoEmails, twoEmails_json),
        (emailsWithNull, emailsWithNull_json),
        (badCredentials, JObj [(''message'', JStr ''Bad credentials'')]),
        (''[]'', JArr []),
        (''null'', JNull)]"

text \<open>The examples compare strings with strings only, so no comparison converts.\<close>

definition fixture_runtime :: runtime where
  "fixture_runtime = \<lparr> JSON_parse = fixture_parse, coerce_eq = (\<lambda>x y. False) \<rparr>"

definition stub_get :: "response \<Rightarrow> response \<Rightarrow> transport" where
  "stub_get primary secondary url accessToken =
     (if url = ''https://api.github.com/user'' then primary else secondary)"

definition accepting_verify :: verify where
  "accepting_verify req accessToken refreshToken p =
     \<lparr> v_error = JNull, v_user = json p, v_info = JObj [(''info'', JStr ''foo'')] \<rparr>"

text \<open>
  An object literal, or any object built by \<open>{}\<close>: it inherits the methods of
  \<open>Object.prototype\<close>, and \<open>__proto__\<close> reads as that prototype.
\<close>

definition object_prototype :: "(string \<times> jsval) list" where
  "object_prototype =
     [(''constructor'', JFunction ''Object'' 1),
      (''toString'', JFunction ''toString'' 0),
      (''toLocaleString'', JFunction ''toLocaleString'' 0),
      (''valueOf'', JFunction ''valueOf'' 0),
      (''hasOwnProperty'', JFunction ''hasOwnProperty'' 1),
      (''isPrototypeOf'', JFunction ''isPrototypeOf'' 1),
      (''propertyIsEnumerable'', JFunction ''propertyIsEnumerable'' 1),
      (''__defineGetter__'', JFunction ''__defineGetter__'' 2),
      (''__defineSetter__'', JFunction ''__defineSetter__'' 2),
      (''__lookupGetter__'', JFunction ''__lookupGetter__'' 1),
      (''__lookupSetter__'', JFunction ''__lookupSetter__'' 1)]"

definition plain_object :: "(string \<times> jsval) list \<Rightarrow> js_object" where
  "plain_object kvs =
     \<lparr> own_props = map_of kvs,
       inherited_props = map_of ((''__proto__'', JObj object_prototype) # object_prototype) \<rparr>"

definition empty_request :: request where
  "empty_request = \<lparr> req_body = None, req_query = None, req_headers = None \<rparr>"

definition body_request :: request where
  "body_request =
     \<lparr> req_body = Some (plain_object [(''access_token'', JStr ''access_token'')]),
       req_query = None, req_headers = None \<rparr>"

definition headers_request :: request where
  "headers_request =
     \<lparr> req_body = None, req_query = None,
       req_headers = Some (plain_object [(''access_token'', JStr ''access_token''),
                                         (''refresh_token'', JStr ''refresh_token'')]) \<rparr>"

text \<open>
  A request whose body, query and headers are empty object literals, and a strategy
  configured to read the tokens from fields that are names of inherited methods.
\<close>

definition bare_request :: request where
  "bare_request =
     \<lparr> req_body = Some (plain_object []), req_query = Some (plain_object []),
       req_headers = Some (plain_object []) \<rparr>"

definition toString_options :: options where
  "toString_options = default_options\<lparr> opt_accessTokenField := Some ''toString'' \<rparr>"

definition unauthorized :: transport_error where
  "unauthorized = \<lparr> data = Some badCredentials, statusCode = JNum 401 \<rparr>"

definition broken_pipe :: transport_error where
  "broken_pipe = \<lparr> data = Some ''not a JSON'', statusCode = JNum 500 \<rparr>"

definition null_data :: transport_error where
  "null_data = \<lparr> data = Some ''null'', statusCode = JNum 500 \<rparr>"

section \<open>Vocabulary of the properties\<close>

text \<open>
  A part of the request lacks a field when it is absent or an object with no such
  property, own or inherited; it lacks the field among its own properties when it is
  absent or has no such own property.
\<close>

definition lacks :: "js_object option \<Rightarrow> string \<Rightarrow> bool" where
  "lacks part f =
     (case part of
        None \<Rightarrow> True
      | Some ob \<Rightarrow> own_props ob f = None \<and> inherited_props ob f = None)"

definition lacks_own :: "js_object option \<Rightarrow> string \<Rightarrow> bool" where
  "lacks_own part f = (case part of None \<Rightarrow> True | Some ob \<Rightarrow> own_props ob f = None)"

text \<open>The text before the first space of a string, and the text after it.\<close>

definition before_first_space :: "string \<Rightarrow> string" where
  "before_first_space s = takeWhile (\<lambda>c. c \<noteq> CHR '' '') s"

definition after_first_space :: "string \<Rightarrow> string" where
  "after_first_space s = drop 1 (dropWhile (\<lambda>c. c \<noteq> CHR '' '') s)"

text \<open>
  The merge as the specification words it, in closed form and in terms of the values
  only. The address of a returned record is its \<open>email\<close>; it equals the value of an
  entry under \<open>==\<close>. The existing entries keep their places; the first one takes the
  \<open>primary\<close> and \<open>verified\<close> flags of the last returned record whose address equals its
  value, when there is one; the records with another address follow as new entries
  \<open>{value, primary, verified}\<close>, in the order returned. With no existing entry every record
  is a new entry.
\<close>

definition address_equals :: "runtime \<Rightarrow> email_entry \<Rightarrow> jsval \<Rightarrow> bool" where
  "address_equals rt en r = loose_eq (coerce_eq rt) (email_value en) (read_prop r ''email'')"

definition with_flags_of :: "jsval \<Rightarrow> email_entry \<Rightarrow> email_entry" where
  "with_flags_of r en =
     \<lparr> email_value = email_value en,
       email_primary = Some (read_prop r ''primary''),
       email_verified = Some (read_prop r ''verified'') \<rparr>"

definition entry_of :: "jsval \<Rightarrow> email_entry" where
  "entry_of r =
     \<lparr> email_value = read_prop r ''email'',
       email_primary = Some (read_prop r ''primary''),
       email_verified = Some (read_prop r ''verified'') \<rparr>"

definition merge_flags ::
  "runtime \<Rightarrow> email_entry \<Rightarrow> jsval list \<Rightarrow> email_entry \<Rightarrow> email_entry"
where
  "merge_flags rt pe recs en =
     (case filter (address_equals rt pe) recs of
        [] \<Rightarrow> en
      | m # ms \<Rightarrow> with_flags_of (last (m # ms)) en)"

definition spec_merged :: "runtime \<Rightarrow> email_entry list \<Rightarrow> jsval list \<Rightarrow> email_entry list" where
  "spec_merged rt ems recs =
     (case ems of
        [] \<Rightarrow> map entry_of recs
      | en # rest \<Rightarrow>
          merge_flags rt en recs en # rest
          @ map entry_of (filter (\<lambda>r. \<not> address_equals rt en r) recs))"

section \<open>Auxiliary facts\<close>

lemmas program_defs =
  authenticate_def find_token_def lookup_field_def js_or_def loadUserProfile_def
  userProfile_def GitHubTokenStrategy_def or_default_def parse_profile_def
  build_profile_def get_prop_def name_piece_def split2_def piece_or_empty_def
  wants_private_emails_def merge_emails_def missing_token_def verified_def
  profile_error_def emails_or_empty_def first_entry_def email_step_def is_public_def
  set_flags_def new_entry_def

lemmas fixture_defs =
  default_options_def email_options_def fakeProfile_def fakeProfile_json_def
  fakeProfile_normalized_def hiddenEmailProfile_def hiddenEmailProfile_json_def
  fakeEmails_def fakeEmails_json_def badCredentials_def fixture_parse_def
  fixture_runtime_def stub_get_def accepting_verify_def empty_request_def
  body_request_def headers_request_def unauthorized_def broken_pipe_def null_data_def
  object_prototype_def plain_object_def bare_request_def toString_options_def
  twoEmails_def twoEmails_json_def emailsWithNull_def emailsWithNull_json_def

lemma lookup_field_lacks: "lacks part f \<Longrightarrow> lookup_field part f = JUndefined"
  by (cases part) (simp_all add: lacks_def lookup_field_def)

lemma find_token_lacks:
  "lacks (req_body req) f \<Longrightarrow> lacks (req_query req) f \<Longrightarrow> find_token req f = JUndefined"
  by (simp add: find_token_def lookup_field_lacks js_or_def)

text \<open>Body before query: what \<open>authenticate\<close> does find.\<close>

lemma find_token_body_first:
  "truthy (lookup_field (req_body req) f) \<Longrightarrow> find_token req f = lookup_field (req_body req) f"
  by (simp add: find_token_def js_or_def)

lemma find_token_query_second:
  "lacks (req_body req) f \<Longrightarrow> find_token req f = lookup_field (req_query req) f"
  by (simp add: find_token_def js_or_def lookup_field_lacks)

text \<open>The lookup of the other version finds the token of a request that has headers only.\<close>

lemma find_token_with_headers_example:
  "find_token_with_headers headers_request ''access_token'' = JStr ''access_token''"
  by (simp add: find_token_with_headers_def headers_request_def lookup_field_def js_or_def
      plain_object_def object_prototype_def)

text \<open>The pieces of \<open>split\<close>.\<close>

lemma split_on_nonempty: "split_on c s \<noteq> []"
  by (induction s) (auto split: list.splits)

lemma split_on_unfold:
  "split_on c s =
     takeWhile (\<lambda>x. x \<noteq> c) s
     # (if c \<in> set s then split_on c (drop 1 (dropWhile (\<lambda>x. x \<noteq> c) s)) else [])"
proof (induction s)
  case Nil
  show ?case by simp
next
  case (Cons x xs)
  show ?case
  proof (cases "x = c")
    case True
    then show ?thesis by simp
  next
    case False
    then show ?thesis using Cons by (simp split: list.splits)
  qed
qed

lemma nothing_after_missing_separator:
  "c \<notin> set s \<Longrightarrow> drop 1 (dropWhile (\<lambda>x. x \<noteq> c) s) = []"
  by (induction s) auto

lemma split2_pieces:
  "piece_or_empty (split2 s) 0 = before_first_space s"
  "piece_or_empty (split2 s) (Suc 0) = before_first_space (after_first_space s)"
proof -
  let ?rest = "drop 1 (dropWhile (\<lambda>x. x \<noteq> CHR '' '') s)"
  have u: "split_on CHR '' '' s =
      takeWhile (\<lambda>x. x \<noteq> CHR '' '') s
      # (if CHR '' '' \<in> set s then split_on CHR '' '' ?rest else [])"
    by (rule split_on_unfold)
  show "piece_or_empty (split2 s) 0 = before_first_space s"
    by (subst split2_def, subst u) (simp add: piece_or_empty_def before_first_space_def)
  show "piece_or_empty (split2 s) (Suc 0) = before_first_space (after_first_space s)"
  proof (cases "CHR '' '' \<in> set s")
    case True
    obtain q qs where q: "split_on CHR '' '' ?rest = q # qs"
      using split_on_nonempty by (cases "split_on CHR '' '' ?rest") auto
    have "q = takeWhile (\<lambda>x. x \<noteq> CHR '' '') ?rest"
      using q split_on_unfold [of "CHR '' ''" ?rest] by simp
    then show ?thesis
      using True q
      by (subst split2_def, subst u)
         (simp add: piece_or_empty_def before_first_space_def after_first_space_def)
  next
    case False
    then show ?thesis
      using nothing_after_missing_separator [of "CHR '' ''" s]
      by (subst split2_def, subst u)
         (simp add: piece_or_empty_def before_first_space_def after_first_space_def)
  qed
qed

lemma build_profile_name:
  assumes "build_profile b j = Inr p"
  shows "name_piece (read_prop j ''name'') 0 = Inr (givenName (name p))"
    and "name_piece (read_prop j ''name'') 1 = Inr (familyName (name p))"
  using assms by (auto simp: build_profile_def split: sum.splits)

text \<open>The loop over the returned records.\<close>

lemma is_public_address_equals: "is_public rt (Some pe) r = address_equals rt pe r"
  by (simp add: is_public_def address_equals_def)

lemma set_flags_with_flags_of:
  "set_flags (read_prop r ''primary'') (read_prop r ''verified'') en = with_flags_of r en"
  by (simp add: set_flags_def with_flags_of_def)

lemma new_entry_entry_of: "new_entry = entry_of"
  by (rule ext) (simp add: new_entry_def entry_of_def)

lemma with_flags_of_twice: "with_flags_of r (with_flags_of r' en) = with_flags_of r en"
  by (simp add: with_flags_of_def)

lemma merge_flags_Cons:
  "merge_flags rt pe (r # recs) en =
     (if address_equals rt pe r
      then merge_flags rt pe recs (with_flags_of r en)
      else merge_flags rt pe recs en)"
  by (simp add: merge_flags_def with_flags_of_twice split: list.splits)

lemma forEach_email_public:
  assumes "\<forall>r \<in> set recs. r \<noteq> JNull \<and> r \<noteq> JUndefined"
  shows "forEach_email rt (Some pe) (en # rest) recs =
           Inr (merge_flags rt pe recs en # rest
                @ map entry_of (filter (\<lambda>r. \<not> address_equals rt pe r) recs))"
  using assms
proof (induction recs arbitrary: en rest)
  case Nil
  show ?case by (simp add: merge_flags_def)
next
  case (Cons r recs)
  then have ok: "get_prop r ''email'' = Inr (read_prop r ''email'')"
    by (simp add: get_prop_def)
  show ?case
  proof (cases "address_equals rt pe r")
    case True
    then show ?thesis
      using Cons ok
      by (simp add: email_step_def merge_flags_Cons is_public_address_equals
          set_flags_with_flags_of)
  next
    case False
    then show ?thesis
      using Cons ok
      by (simp add: email_step_def merge_flags_Cons is_public_address_equals
          new_entry_entry_of)
  qed
qed

lemma forEach_email_none:
  assumes "\<forall>r \<in> set recs. r \<noteq> JNull \<and> r \<noteq> JUndefined"
  shows "forEach_email rt None ems recs = Inr (ems @ map entry_of recs)"
  using assms
  by (induction recs arbitrary: ems)
     (simp_all add: email_step_def get_prop_def is_public_def new_entry_entry_of)

text \<open>
  The emails call returned a non-empty list with no null element: the profile's emails
  become the merge of the existing entries with the records.
\<close>

lemma records_are_merged:
  assumes "wants_private_emails st"
    and "get (profileURL st) tok = Body b"
    and "parse_profile rt b = Inr p"
    and "get (profileURL st @ ''/emails'') tok = Body emailsBody"
    and "JSON_parse rt emailsBody = Some (JArr recs)"
    and "recs \<noteq> []"
    and "\<forall>r \<in> set recs. r \<noteq> JNull \<and> r \<noteq> JUndefined"
  shows "userProfile rt st get tok
       = Done_profile
           (p\<lparr> emails :=
                 Emails (spec_merged rt (case emails p of NoEmails v \<Rightarrow> [] | Emails es \<Rightarrow> es)
                           recs) \<rparr>)"
proof (cases "emails p")
  case (NoEmails v)
  then show ?thesis
    using assms
    by (simp add: userProfile_def merge_emails_def get_prop_def first_entry_def
        emails_or_empty_def spec_merged_def forEach_email_none)
next
  case (Emails es)
  then show ?thesis
    using assms
    by (cases es)
       (simp_all add: userProfile_def merge_emails_def get_prop_def first_entry_def
          emails_or_empty_def spec_merged_def forEach_email_none forEach_email_public)
qed

text \<open>
  On the fixture: a record with the public address gives its flags to the first entry
  and adds none, a record with another address is appended, and with no public email
  both records are appended.
\<close>

lemma records_are_merged_examples:
  "userProfile fixture_runtime (GitHubTokenStrategy email_options)
     (stub_get (Body fakeProfile) (Body fakeEmails)) (JStr ''access_token'')
   = Done_profile
       (fakeProfile_normalized
          \<lparr> emails := Emails [\<lparr> email_value = JStr ''ghaiklor@gmail.com'',
                                 email_primary = Some (JBool True),
                                 email_verified = Some (JBool True) \<rparr>] \<rparr>)"
  "userProfile fixture_runtime (GitHubTokenStrategy email_options)
     (stub_get (Body fakeProfile) (Body twoEmails)) (JStr ''access_token'')
   = Done_profile
       (fakeProfile_normalized
          \<lparr> emails := Emails [\<lparr> email_value = JStr ''ghaiklor@gmail.com'',
                                 email_primary = Some (JBool True),
                                 email_verified = Some (JBool True) \<rparr>,
                               \<lparr> email_value = JStr ''work@example.com'',
                                 email_primary = Some (JBool False),
                                 email_verified = Some (JBool True) \<rparr>] \<rparr>)"
  "userProfile fixture_runtime (GitHubTokenStrategy email_options)
     (stub_get (Body hiddenEmailProfile) (Body twoEmails)) (JStr ''access_token'')
   = Done_profile
       (fakeProfile_normalized
          \<lparr> emails := Emails [\<lparr> email_value = JStr ''ghaiklor@gmail.com'',
                                 email_primary = Some (JBool True),
                                 email_verified = Some (JBool True) \<rparr>,
                               \<lparr> email_value = JStr ''work@example.com'',
                                 email_primary = Some (JBool False),
                                 email_verified = Some (JBool True) \<rparr>],
            raw := hiddenEmailProfile, json := hiddenEmailProfile_json \<rparr>)"
  using
    records_are_merged
      [where st = "GitHubTokenStrategy email_options"
         and get = "stub_get (Body fakeProfile) (Body fakeEmails)"
         and tok = "JStr ''access_token''" and b = fakeProfile and rt = fixture_runtime
         and p = fakeProfile_normalized and emailsBody = fakeEmails
         and recs = "[JObj [(''email'', JStr ''ghaiklor@gmail.com''), (''primary'', JBool True),
                            (''verified'', JBool True)]]"]
  by (simp_all add: program_defs fixture_defs)

text \<open>
  \<open>verified\<close> takes one of its three paths, and without the private-email scope no
  exception leaves \<open>authenticate\<close>.
\<close>

lemma verified_paths:
  "verified v = Error (AppError (v_error v)) \<and> truthy (v_error v)
   \<or> verified v = Fail (v_info v) \<and> \<not> truthy (v_error v) \<and> \<not> truthy (v_user v)
   \<or> verified v = Success (v_user v) (v_info v) \<and> \<not> truthy (v_error v) \<and> truthy (v_user v)"
  by (simp add: verified_def)

lemma verified_not_escaped: "verified v \<noteq> Escaped e"
  by (simp add: verified_def)

lemma authenticate_signals_without_scope:
  "\<not> wants_private_emails st \<Longrightarrow> authenticate rt st get vfy req \<noteq> Escaped e"
  by (auto simp: authenticate_def loadUserProfile_def userProfile_def verified_not_escaped
      Let_def split: response.splits sum.splits profile_outcome.splits)

section \<open>Token extraction\<close>

text \<open>
  C1. The claim: a token present in exactly one of body, query and headers is found
  there, with body before query before headers and the header name matched in any
  casing. \<open>authenticate\<close> reads the body and the query only (see
  \<open>find_token_body_first\<close>, \<open>find_token_query_second\<close>); the header lookup exists in
  the other version of the file only (\<open>find_token_with_headers\<close>). On the request of the test
  \<open>Should properly parse access_token\<close>, which carries both tokens in its headers and
  nowhere else, it ends with \<open>fail\<close> and the message that the access token is missing,
  where the test expects \<open>success\<close>.
\<close>

theorem authenticate_ignores_headers:
  "authenticate rt (GitHubTokenStrategy default_options) get vfy headers_request
   = Fail (JObj [(''message'', JStr ''You should provide access_token'')])"
  by (simp add: program_defs default_options_def headers_request_def plain_object_def
      object_prototype_def)

text \<open>
  C2, as the code has it. When body, query and headers all lack the configured
  access-token field, a property the object inherits from its prototype counting as
  present, \<open>authenticate\<close> ends with \<open>fail\<close> (not \<open>error\<close>) and the message
  \<open>You should provide\<close> followed by the configured field name. A missing refresh token
  causes no failure: when the access token is found and the refresh-token field is
  lacking, the profile is loaded and the verify callback runs, with \<open>undefined\<close> as the
  refresh token.
\<close>

theorem missing_access_token_fails:
  "(lacks (req_body req) (accessTokenField st) \<and> lacks (req_query req) (accessTokenField st)
      \<and> lacks (req_headers req) (accessTokenField st)
    \<longrightarrow> authenticate rt st get vfy req
        = Fail (JObj [(''message'', JStr (''You should provide '' @ accessTokenField st))]))
   \<and> (truthy (find_token req (accessTokenField st))
      \<and> lacks (req_body req) (refreshTokenField st) \<and> lacks (req_query req) (refreshTokenField st)
      \<and> lacks (req_headers req) (refreshTokenField st)
    \<longrightarrow> authenticate rt st get vfy req
        = (case userProfile rt st get (find_token req (accessTokenField st)) of
             Done_error e \<Rightarrow> Error e
           | Uncaught e \<Rightarrow> Escaped e
           | Done_profile p \<Rightarrow>
               verified (vfy (if passReqToCallback st then Some req else None)
                             (find_token req (accessTokenField st)) JUndefined p)))"
  by (simp add: authenticate_def find_token_lacks missing_token_def loadUserProfile_def Let_def)

theorem missing_access_token_fails_witness:
  "lacks (req_body bare_request) ''access_token''
   \<and> lacks (req_query bare_request) ''access_token''
   \<and> lacks (req_headers bare_request) ''access_token''
   \<and> authenticate fixture_runtime (GitHubTokenStrategy default_options)
        (stub_get (Body fakeProfile) (Body ''[]'')) accepting_verify bare_request
      = Fail (JObj [(''message'', JStr ''You should provide access_token'')])
   \<and> lacks (req_body empty_request) ''access_token''
   \<and> lacks (req_query empty_request) ''access_token''
   \<and> lacks (req_headers empty_request) ''access_token''
   \<and> authenticate fixture_runtime (GitHubTokenStrategy default_options)
        (stub_get (Body fakeProfile) (Body ''[]'')) accepting_verify empty_request
      = Fail (JObj [(''message'', JStr ''You should provide access_token'')])
   \<and> truthy (find_token body_request ''access_token'')
   \<and> lacks (req_body body_request) ''refresh_token''
   \<and> lacks (req_query body_request) ''refresh_token''
   \<and> lacks (req_headers body_request) ''refresh_token''
   \<and> authenticate fixture_runtime (GitHubTokenStrategy default_options)
        (stub_get (Body fakeProfile) (Body ''[]'')) accepting_verify body_request
      = Success fakeProfile_json (JObj [(''info'', JStr ''foo'')])"
  using
    missing_access_token_fails
      [where req = bare_request and st = "GitHubTokenStrategy default_options"
         and rt = fixture_runtime and get = "stub_get (Body fakeProfile) (Body ''[]'')"
         and vfy = accepting_verify]
    missing_access_token_fails
      [where req = empty_request and st = "GitHubTokenStrategy default_options"
         and rt = fixture_runtime and get = "stub_get (Body fakeProfile) (Body ''[]'')"
         and vfy = accepting_verify]
    missing_access_token_fails
      [where req = body_request and st = "GitHubTokenStrategy default_options"
         and rt = fixture_runtime and get = "stub_get (Body fakeProfile) (Body ''[]'')"
         and vfy = accepting_verify]
  by (simp add: program_defs fixture_defs lacks_def)

text \<open>
  C2 as claimed fails when the configured field is the name of an inherited method.
  With the access-token field \<open>toString\<close>, a request whose body, query and headers are
  empty objects has the field in none of them, yet \<open>req.body[field]\<close> reads the inherited
  function, which is truthy: \<open>authenticate\<close> does not fail, it loads the profile with
  that function as the token and ends with \<open>success\<close>.
\<close>

theorem inherited_field_counterexample:
  "accessTokenField (GitHubTokenStrategy toString_options) = ''toString''
   \<and> lacks_own (req_body bare_request) ''toString''
   \<and> lacks_own (req_query bare_request) ''toString''
   \<and> lacks_own (req_headers bare_request) ''toString''
   \<and> find_token bare_request ''toString'' = JFunction ''toString'' 0
   \<and> authenticate fixture_runtime (GitHubTokenStrategy toString_options)
        (stub_get (Body fakeProfile) (Body ''[]'')) accepting_verify bare_request
      = Success fakeProfile_json (JObj [(''info'', JStr ''foo'')])"
  by (simp add: program_defs fixture_defs lacks_own_def)

section \<open>The primary response\<close>

text \<open>
  C3. When the body of the primary response is not valid JSON, \<open>userProfile\<close> calls
  \<open>done\<close> with the parse error and no profile, and \<open>authenticate\<close>, for a request
  carrying that access token, ends with \<open>error\<close> and the same parse error.
\<close>

theorem invalid_primary_json_is_error:
  assumes "get (profileURL st) tok = Body b" and "JSON_parse rt b = None"
  shows "userProfile rt st get tok = Done_error SyntaxError
       \<and> (find_token req (accessTokenField st) = tok \<and> truthy tok
          \<longrightarrow> authenticate rt st get vfy req = Error SyntaxError)"
  using assms
  by (simp add: userProfile_def parse_profile_def authenticate_def loadUserProfile_def Let_def)

theorem invalid_primary_json_is_error_witness:
  "stub_get (Body ''not a JSON'') (Body ''[]'')
     (profileURL (GitHubTokenStrategy default_options)) (JStr ''access_token'')
   = Body ''not a JSON''
   \<and> JSON_parse fixture_runtime ''not a JSON'' = None
   \<and> userProfile fixture_runtime (GitHubTokenStrategy default_options)
        (stub_get (Body ''not a JSON'') (Body ''[]'')) (JStr ''access_token'')
      = Done_error SyntaxError
   \<and> find_token body_request (accessTokenField (GitHubTokenStrategy default_options))
      = JStr ''access_token''
   \<and> truthy (JStr ''access_token'')
   \<and> authenticate fixture_runtime (GitHubTokenStrategy default_options)
        (stub_get (Body ''not a JSON'') (Body ''[]'')) accepting_verify body_request
      = Error SyntaxError"
  using
    invalid_primary_json_is_error
      [where get = "stub_get (Body ''not a JSON'') (Body ''[]'')"
         and st = "GitHubTokenStrategy default_options" and tok = "JStr ''access_token''"
         and b = "''not a JSON''" and rt = fixture_runtime and req = body_request
         and vfy = accepting_verify]
  by (simp add: program_defs fixture_defs)

text \<open>
  C4, as the code has it. After normalization of a parsed primary response, \<open>emails\<close> is
  a list of one entry holding the upstream email when that email is present and truthy;
  when the upstream email is absent, or null, or empty, \<open>emails\<close> is no list: it holds
  that absent or falsy value itself. The enrichment step reads it as \<open>profile.emails || []\<close>.
\<close>

theorem emails_after_normalization:
  assumes "JSON_parse rt b = Some j" and "parse_profile rt b = Inr p"
  shows "(truthy (read_prop j ''email'')
            \<longrightarrow> emails p = Emails [\<lparr> email_value = read_prop j ''email'',
                                      email_primary = None, email_verified = None \<rparr>])
       \<and> (\<not> truthy (read_prop j ''email'') \<longrightarrow> emails p = NoEmails (read_prop j ''email''))"
  using assms
  by (auto simp: parse_profile_def build_profile_def split: sum.splits)

theorem emails_after_normalization_witness:
  "JSON_parse fixture_runtime fakeProfile = Some fakeProfile_json
   \<and> parse_profile fixture_runtime fakeProfile = Inr fakeProfile_normalized
   \<and> truthy (read_prop fakeProfile_json ''email'')
   \<and> emails fakeProfile_normalized
      = Emails [\<lparr> email_value = JStr ''ghaiklor@gmail.com'',
                  email_primary = None, email_verified = None \<rparr>]
   \<and> JSON_parse fixture_runtime hiddenEmailProfile = Some hiddenEmailProfile_json
   \<and> parse_profile fixture_runtime hiddenEmailProfile
      = Inr (fakeProfile_normalized
               \<lparr> emails := NoEmails JUndefined, raw := hiddenEmailProfile,
                 json := hiddenEmailProfile_json \<rparr>)
   \<and> \<not> truthy (read_prop hiddenEmailProfile_json ''email'')"
  using
    emails_after_normalization
      [where rt = fixture_runtime and b = fakeProfile and j = fakeProfile_json
         and p = fakeProfile_normalized]
    emails_after_normalization
      [where rt = fixture_runtime and b = hiddenEmailProfile and j = hiddenEmailProfile_json
         and p = "fakeProfile_normalized
                    \<lparr> emails := NoEmails JUndefined, raw := hiddenEmailProfile,
                      json := hiddenEmailProfile_json \<rparr>"]
  by (simp add: program_defs fixture_defs)

text \<open>
  C4 as claimed fails: a primary response without an email field is normalized to a
  profile whose \<open>emails\<close> is \<open>undefined\<close>, not the list of one entry with the empty
  string as its value.
\<close>

theorem emails_absent_counterexample:
  "build_profile hiddenEmailProfile hiddenEmailProfile_json
   = Inr \<lparr> provider = ''github'', profile_id = JStr ''1'', username = JStr ''ghaiklor'',
           displayName = JStr ''Eugene Obrezkov'',
           name = \<lparr> familyName = ''Obrezkov'', givenName = ''Eugene'' \<rparr>,
           emails = NoEmails JUndefined,
           photos = [], raw = hiddenEmailProfile, json = hiddenEmailProfile_json \<rparr>
   \<and> NoEmails JUndefined
      \<noteq> Emails [\<lparr> email_value = JStr [], email_primary = None, email_verified = None \<rparr>]"
  by (simp add: program_defs hiddenEmailProfile_json_def)

text \<open>
  C5. The primary-profile JSON of the fixture is normalized to provider \<open>github\<close>,
  id \<open>1\<close>, username \<open>ghaiklor\<close>, display name \<open>Eugene Obrezkov\<close>, given name
  \<open>Eugene\<close>, family name \<open>Obrezkov\<close>, the one email entry with value
  \<open>ghaiklor@gmail.com\<close> and no photos; \<open>_raw\<close> and \<open>_json\<close> keep the body and the
  parsed document.
\<close>

theorem fixture_profile_normalized:
  "build_profile b
     (JObj [(''id'', JStr ''1''), (''login'', JStr ''ghaiklor''),
            (''name'', JStr ''Eugene Obrezkov''), (''email'', JStr ''ghaiklor@gmail.com'')])
   = Inr \<lparr> provider = ''github'', profile_id = JStr ''1'', username = JStr ''ghaiklor'',
           displayName = JStr ''Eugene Obrezkov'',
           name = \<lparr> familyName = ''Obrezkov'', givenName = ''Eugene'' \<rparr>,
           emails = Emails [\<lparr> email_value = JStr ''ghaiklor@gmail.com'',
                              email_primary = None, email_verified = None \<rparr>],
           photos = [], raw = b,
           json = JObj [(''id'', JStr ''1''), (''login'', JStr ''ghaiklor''),
                        (''name'', JStr ''Eugene Obrezkov''),
                        (''email'', JStr ''ghaiklor@gmail.com'')] \<rparr>"
  by (simp add: program_defs)

text \<open>
  C6, as the code has it. In every normalized profile the given name is the text of the
  upstream name before its first space, and the family name is the text between the
  first space and the second (up to the end when there is no second space): the second
  piece of the name cut at every space. Both are empty when the name is absent or
  empty, and the family name is empty when the name has no space.
\<close>

theorem name_split_pieces:
  assumes "build_profile b j = Inr p"
  shows "givenName (name p) =
           (case read_prop j ''name'' of JStr s \<Rightarrow> before_first_space s | _ \<Rightarrow> [])
       \<and> familyName (name p) =
           (case read_prop j ''name'' of
              JStr s \<Rightarrow> before_first_space (after_first_space s) | _ \<Rightarrow> [])"
proof -
  note n = build_profile_name [OF assms]
  show ?thesis
  proof (cases "read_prop j ''name''")
    case (JStr s)
    then show ?thesis using n
      by (cases "s = []")
         (simp_all add: name_piece_def split2_pieces before_first_space_def [of "[]"]
            after_first_space_def [of "[]"])
  qed (use n in \<open>simp_all add: name_piece_def split: if_splits\<close>)
qed

theorem name_split_pieces_witness:
  "build_profile fakeProfile fakeProfile_json = Inr fakeProfile_normalized
   \<and> givenName (name fakeProfile_normalized) = ''Eugene''
   \<and> familyName (name fakeProfile_normalized) = ''Obrezkov''
   \<and> before_first_space ''Eugene Obrezkov'' = ''Eugene''
   \<and> before_first_space (after_first_space ''Eugene Obrezkov'') = ''Obrezkov''"
  using name_split_pieces
      [where b = fakeProfile and j = fakeProfile_json and p = fakeProfile_normalized]
  by (simp add: program_defs fixture_defs before_first_space_def after_first_space_def)

text \<open>
  C6 as claimed fails on a name with two spaces: the family name is the middle word, not
  the text after the first space.
\<close>

theorem family_name_counterexample:
  "build_profile [] (JObj [(''name'', JStr ''Eugene van Obrezkov'')])
   = Inr \<lparr> provider = ''github'', profile_id = JUndefined, username = JUndefined,
           displayName = JStr ''Eugene van Obrezkov'',
           name = \<lparr> familyName = ''van'', givenName = ''Eugene'' \<rparr>,
           emails = NoEmails JUndefined, photos = [], raw = [],
           json = JObj [(''name'', JStr ''Eugene van Obrezkov'')] \<rparr>
   \<and> after_first_space ''Eugene van Obrezkov'' = ''van Obrezkov''"
  by (simp add: program_defs after_first_space_def)

text \<open>
  C9, as the code has it. When the transport reports an error on the primary fetch, no
  profile is produced. If the error's data parses as JSON to a value other than null,
  \<open>userProfile\<close> reports an \<open>InternalOAuthError\<close> with that document's \<open>message\<close> and the
  transport error's status code. If the data is absent, does not parse, or parses to
  null, it reports an \<open>InternalOAuthError\<close> with the message
  \<open>Failed to fetch user profile\<close> that wraps the transport error. (\<open>JSON.parse\<close> never
  returns \<open>undefined\<close>.)
\<close>

theorem primary_transport_error:
  assumes "get (profileURL st) tok = Failed e"
  shows "(data e = Some d \<and> JSON_parse rt d = Some j \<and> j \<noteq> JNull \<and> j \<noteq> JUndefined
            \<longrightarrow> userProfile rt st get tok
                = Done_error (InternalOAuthError (read_prop j ''message'')
                                                 (StatusCode (statusCode e))))
       \<and> (data e = None
            \<or> (data e = Some d \<and> (JSON_parse rt d = None \<or> JSON_parse rt d = Some JNull))
            \<longrightarrow> userProfile rt st get tok
                = Done_error (InternalOAuthError (JStr ''Failed to fetch user profile'')
                                                 (Cause e)))"
  using assms
  by (auto simp: userProfile_def profile_error_def get_prop_def)

theorem primary_transport_error_witness:
  "stub_get (Failed unauthorized) (Body ''[]'')
     (profileURL (GitHubTokenStrategy default_options)) (JStr ''access_token'')
   = Failed unauthorized
   \<and> data unauthorized = Some badCredentials
   \<and> JSON_parse fixture_runtime badCredentials
      = Some (JObj [(''message'', JStr ''Bad credentials'')])
   \<and> userProfile fixture_runtime (GitHubTokenStrategy default_options)
        (stub_get (Failed unauthorized) (Body ''[]'')) (JStr ''access_token'')
      = Done_error (InternalOAuthError (JStr ''Bad credentials'') (StatusCode (JNum 401)))
   \<and> stub_get (Failed broken_pipe) (Body ''[]'')
        (profileURL (GitHubTokenStrategy default_options)) (JStr ''access_token'')
      = Failed broken_pipe
   \<and> data broken_pipe = Some ''not a JSON''
   \<and> JSON_parse fixture_runtime ''not a JSON'' = None
   \<and> userProfile fixture_runtime (GitHubTokenStrategy default_options)
        (stub_get (Failed broken_pipe) (Body ''[]'')) (JStr ''access_token'')
      = Done_error (InternalOAuthError (JStr ''Failed to fetch user profile'')
                                       (Cause broken_pipe))"
  using
    primary_transport_error
      [where get = "stub_get (Failed unauthorized) (Body ''[]'')"
         and st = "GitHubTokenStrategy default_options" and tok = "JStr ''access_token''"
         and e = unauthorized and d = badCredentials and rt = fixture_runtime
         and j = "JObj [(''message'', JStr ''Bad credentials'')]"]
    primary_transport_error
      [where get = "stub_get (Failed broken_pipe) (Body ''[]'')"
         and st = "GitHubTokenStrategy default_options" and tok = "JStr ''access_token''"
         and e = broken_pipe and d = "''not a JSON''" and rt = fixture_runtime]
  by (simp add: program_defs fixture_defs)

text \<open>
  C9 as claimed fails when the error's data is the text \<open>null\<close>: it parses as JSON, yet
  the read of its \<open>message\<close> throws inside the same \<open>try\<close> and the generic error
  wrapping the transport error is reported.
\<close>

theorem null_error_data_counterexample:
  "JSON_parse fixture_runtime ''null'' = Some JNull
   \<and> userProfile fixture_runtime (GitHubTokenStrategy default_options)
        (stub_get (Failed null_data) (Body ''[]'')) (JStr ''access_token'')
      = Done_error (InternalOAuthError (JStr ''Failed to fetch user profile'')
                                       (Cause null_data))"
  by (simp add: program_defs fixture_defs)

section \<open>The emails response\<close>

text \<open>
  C7. With a scope that contains the private-email marker and a profile built from the
  primary response, a failed emails call leaves that profile as it is and reports no
  error: this holds when the transport reports an error, when the emails body does not
  parse, and when it parses to the empty list.
\<close>

theorem secondary_failure_keeps_profile:
  assumes "wants_private_emails st"
    and "get (profileURL st) tok = Body b"
    and "parse_profile rt b = Inr p"
    and "(\<exists>e. get (profileURL st @ ''/emails'') tok = Failed e)
       \<or> (\<exists>b2. get (profileURL st @ ''/emails'') tok = Body b2
              \<and> (JSON_parse rt b2 = None \<or> JSON_parse rt b2 = Some (JArr [])))"
  shows "userProfile rt st get tok = Done_profile p"
  using assms
  by (auto simp: userProfile_def merge_emails_def get_prop_def)

theorem secondary_failure_keeps_profile_witness:
  "wants_private_emails (GitHubTokenStrategy email_options)
   \<and> parse_profile fixture_runtime fakeProfile = Inr fakeProfile_normalized
   \<and> userProfile fixture_runtime (GitHubTokenStrategy email_options)
        (stub_get (Body fakeProfile) (Failed broken_pipe)) (JStr ''access_token'')
      = Done_profile fakeProfile_normalized
   \<and> JSON_parse fixture_runtime ''not a JSON'' = None
   \<and> userProfile fixture_runtime (GitHubTokenStrategy email_options)
        (stub_get (Body fakeProfile) (Body ''not a JSON'')) (JStr ''access_token'')
      = Done_profile fakeProfile_normalized
   \<and> JSON_parse fixture_runtime ''[]'' = Some (JArr [])
   \<and> userProfile fixture_runtime (GitHubTokenStrategy email_options)
        (stub_get (Body fakeProfile) (Body ''[]'')) (JStr ''access_token'')
      = Done_profile fakeProfile_normalized"
  using
    secondary_failure_keeps_profile
      [where st = "GitHubTokenStrategy email_options"
         and get = "stub_get (Body fakeProfile) (Failed broken_pipe)"
         and tok = "JStr ''access_token''" and b = fakeProfile and rt = fixture_runtime
         and p = fakeProfile_normalized]
    secondary_failure_keeps_profile
      [where st = "GitHubTokenStrategy email_options"
         and get = "stub_get (Body fakeProfile) (Body ''not a JSON'')"
         and tok = "JStr ''access_token''" and b = fakeProfile and rt = fixture_runtime
         and p = fakeProfile_normalized]
    secondary_failure_keeps_profile
      [where st = "GitHubTokenStrategy email_options"
         and get = "stub_get (Body fakeProfile) (Body ''[]'')"
         and tok = "JStr ''access_token''" and b = fakeProfile and rt = fixture_runtime
         and p = fakeProfile_normalized]
  by (simp add: program_defs fixture_defs)

text \<open>
  C8. The claim: when the emails call returns a non-empty list, each returned record
  either gives its flags to the existing first entry, when its address equals that
  entry's value, or is appended as a new entry \<open>{value, primary, verified}\<close>. The loop does
  so for a list with no null element (\<open>records_are_merged\<close>,
  \<open>records_are_merged_examples\<close>). It reads \<open>email.email\<close> of every element outside any
  \<open>try\<close>: on a list that holds a record and then \<open>null\<close> the record is merged, the read of
  the null element throws a TypeError out of the transport callback, and \<open>done\<close> is never
  called, so no profile is delivered and \<open>authenticate\<close> reaches no signal.
\<close>

theorem null_email_record_escapes:
  "JSON_parse fixture_runtime emailsWithNull = Some emailsWithNull_json
   \<and> userProfile fixture_runtime (GitHubTokenStrategy email_options)
        (stub_get (Body fakeProfile) (Body emailsWithNull)) (JStr ''access_token'')
      = Uncaught TypeError
   \<and> authenticate fixture_runtime (GitHubTokenStrategy email_options)
        (stub_get (Body fakeProfile) (Body emailsWithNull)) accepting_verify body_request
      = Escaped TypeError"
  by (simp add: program_defs fixture_defs)

section \<open>Terminal signals\<close>

text \<open>
  C10. The claim: every call of \<open>authenticate\<close> ends with exactly one of \<open>success\<close>,
  \<open>fail\<close> and \<open>error\<close>, and nothing else leaves the strategy. \<open>verified\<close> does take
  one of its three paths (\<open>verified_paths\<close>), and without the private-email scope one
  signal is reached (\<open>authenticate_signals_without_scope\<close>). With the scope
  \<open>user:email\<close> and an emails body that is the JSON text \<open>null\<close>, the callback of the
  second transport call reads \<open>json.length\<close> outside its \<open>try\<close>: a TypeError leaves the
  strategy and none of the three signals is called.
\<close>

theorem null_emails_body_escapes:
  "authenticate fixture_runtime (GitHubTokenStrategy email_options)
     (stub_get (Body fakeProfile) (Body ''null'')) accepting_verify body_request
   = Escaped TypeError"
  by (simp add: program_defs fixture_defs)

end
